theory Spec2Isabelle
  imports Main "HOL-Library.Char_ord" "HOL-Library.List_Lexorder" "HOL-Library.Multiset"
begin

section \<open>Python values and exceptions\<close>

text \<open>
  The dashboard of \<^verbatim>\<open>main.py\<close> is modelled function by function. An exception that
  leaves a function is the left injection of a sum; \<^verbatim>\<open>st.rerun()\<close> leaves the script
  through an exception of Streamlit's and is modelled the same way.
\<close>

datatype error =
    IndexError
  | KeyError string
  | ValueError
  | TypeError
  | RerunException

text \<open>
  \<^verbatim>\<open>s[i]\<close> on a \<^verbatim>\<open>str\<close>, for an index that is not negative: a string of one character,
  or IndexError when the index is past the end.
\<close>

definition str_getitem :: "string \<Rightarrow> nat \<Rightarrow> error + string" where
  "str_getitem s i = (if i < length s then Inr [s ! i] else Inl IndexError)"

text \<open>\<^verbatim>\<open>str(n)\<close> of an integer, as the f-strings of the source print it.\<close>

fun digits :: "nat \<Rightarrow> string" where
  "digits n =
     (if n < 10 then [char_of (48 + n)]
      else digits (n div 10) @ [char_of (48 + n mod 10)])"

definition str_int :: "int \<Rightarrow> string" where
  "str_int i = (if i < 0 then CHR ''-'' # digits (nat (- i)) else digits (nat i))"

text \<open>
  A value that is a \<^verbatim>\<open>str\<close> or \<^verbatim>\<open>None\<close> is a \<open>string option\<close>. Python's truth
  test takes \<^verbatim>\<open>None\<close> and the empty string for false.
\<close>

section \<open>The platform's JSON records\<close>

text \<open>
  A member of a JSON object that holds a string when it is there: the key can be absent,
  hold \<^verbatim>\<open>null\<close>, or hold a string. \<open>getitem k m\<close> is \<^verbatim>\<open>d[k]\<close> (KeyError when the key is
  absent) and \<open>get_default m d\<close> is \<^verbatim>\<open>d.get(k, d)\<close>.
\<close>

datatype jstr = Absent | Null | Str string

definition getitem :: "string \<Rightarrow> jstr \<Rightarrow> error + string option" where
  "getitem k m =
     (case m of Absent \<Rightarrow> Inl (KeyError k) | Null \<Rightarrow> Inr None | Str s \<Rightarrow> Inr (Some s))"

definition get_default :: "jstr \<Rightarrow> string option \<Rightarrow> string option" where
  "get_default m d = (case m of Absent \<Rightarrow> d | Null \<Rightarrow> None | Str s \<Rightarrow> Some s)"

text \<open>
  The \<^verbatim>\<open>user\<close> member of a pipeline: absent, \<^verbatim>\<open>null\<close>, or an object whose \<^verbatim>\<open>name\<close>
  member is given (an object without that member, the empty object included, is
  \<open>User_obj Absent\<close>: line 182 shows \<^verbatim>\<open>'N/A'\<close> for both).
\<close>

datatype juser = User_absent | User_null | User_obj jstr

text \<open>
  Numeric identifiers are integers; \<open>None\<close> stands for an object without the \<^verbatim>\<open>id\<close> key.
\<close>

record project =
  p_name :: jstr
  p_id :: "int option"

record pipeline =
  pl_id :: "int option"
  pl_status :: jstr
  pl_ref :: jstr
  pl_created_at :: jstr
  pl_updated_at :: jstr
  pl_web_url :: jstr
  pl_user :: juser

record job =
  j_name :: jstr
  j_status :: jstr

section \<open>The API client\<close>

text \<open>
  What \<^verbatim>\<open>requests.get\<close>, \<^verbatim>\<open>raise_for_status\<close> and \<^verbatim>\<open>response.json()\<close> do together for
  one call: the decoded body, or a \<^verbatim>\<open>requests.RequestException\<close> with its text
  (transport failure, a status that is not 2xx, a body that does not decode).
\<close>

datatype 'a response = Json 'a | RequestException string

text \<open>The three endpoints of the platform, as the dashboard object reaches them.\<close>

record gitlab =
  groups_projects :: "string \<Rightarrow> project list response"
  projects_pipelines :: "int \<Rightarrow> nat \<Rightarrow> pipeline list response"
  pipelines_jobs :: "int \<Rightarrow> int \<Rightarrow> job list response"

text \<open>The status glyphs: coloured circles (U+1F7E2 green, U+1F534 red, U+1F535 blue,
  U+1F7E1 yellow, U+26AA white, U+26AB black, U+1F7E0 orange).\<close>

datatype glyph = Green | Red | Blue | Yellow | White | Black | Orange

text \<open>
  One entry of \<^verbatim>\<open>all_pipelines_data\<close> (lines 173 to 183): the dictionary the loop
  appends for a pipeline, with the source's nine keys.
\<close>

record row =
  Project :: "string option"
  Project_ID :: int
  Pipeline_ID :: int
  Status :: "string option"
  Branch :: "string option"
  Created :: "string option"
  Updated :: "string option"
  Web_URL :: "string option"
  User :: "string option"

text \<open>One line of the overview's table (the columns of line 222).\<close>

record display_row =
  Status_Icon :: glyph
  shown_Project :: "string option"
  shown_Branch :: "string option"
  shown_Status :: "string option"
  shown_Created :: string
  Time_Ago :: string
  shown_User :: "string option"

text \<open>
  What the script shows on the page, in the order it is shown: the message boxes, the
  four metrics, the overview's table, one expander per pending pipeline (its glyph, the
  pipeline, the formatted creation time and one line per job: glyph, name, status) and
  one container per recent success (the pipeline and its age). Titles, headers, the
  progress bar and the footer are fixed decoration and are left out; so are the glyphs
  inside the metric labels.
\<close>

datatype event =
    Warning string
  | Error string
  | Success string
  | Info string
  | Metric string nat
  | Dataframe "display_row list"
  | Expander glyph row string "(glyph \<times> string option \<times> string option) list"
  | Container row string

text \<open>
  Each of the four functions below starts with a string literal that is subscripted: an
  expression statement, evaluated at every call before the rest of the body and outside
  its \<^verbatim>\<open>try\<close>. The literals have 27, 36, 32 and 37 characters:
  \<^item> line 16, \<^verbatim>\<open>"""Get all projects in a group"""[22]\<close>;
  \<^item> line 29, \<^verbatim>\<open>"""Get pipelines for a specific project"""[22]\<close>;
  \<^item> line 42, \<^verbatim>\<open>"""Get jobs for a specific pipeline"""[36]\<close>;
  \<^item> line 87, \<^verbatim>\<open>"""Return color based on pipeline status"""[6][10]\<close>.
\<close>

definition get_group_projects ::
  "gitlab \<Rightarrow> string \<Rightarrow> event list \<Rightarrow> error + (project list \<times> event list)" where
  "get_group_projects api group_id ui =
     (case str_getitem ''Get all projects in a group'' 22 of
        Inl e \<Rightarrow> Inl e
      | Inr _ \<Rightarrow>
          (case groups_projects api group_id of
             Json ps \<Rightarrow> Inr (ps, ui)
           | RequestException e \<Rightarrow>
               Inr ([], ui @ [Error (''Error fetching group projects: '' @ e)])))"

definition get_project_pipelines ::
  "gitlab \<Rightarrow> int \<Rightarrow> nat \<Rightarrow> event list \<Rightarrow> error + (pipeline list \<times> event list)" where
  "get_project_pipelines api project_id per_page ui =
     (case str_getitem ''Get pipelines for a specific project'' 22 of
        Inl e \<Rightarrow> Inl e
      | Inr _ \<Rightarrow>
          (case projects_pipelines api project_id per_page of
             Json ps \<Rightarrow> Inr (ps, ui)
           | RequestException e \<Rightarrow>
               Inr ([], ui @ [Error (''Error fetching pipelines for project ''
                                      @ str_int project_id @ '': '' @ e)])))"

text \<open>The \<^verbatim>\<open>try\<close> of \<open>get_pipeline_jobs\<close> (lines 45 to 50).\<close>

definition get_pipeline_jobs_try :: "gitlab \<Rightarrow> int \<Rightarrow> int \<Rightarrow> job list" where
  "get_pipeline_jobs_try api project_id pipeline_id =
     (case pipelines_jobs api project_id pipeline_id of
        Json js \<Rightarrow> js
      | RequestException e \<Rightarrow> [])"

definition get_pipeline_jobs :: "gitlab \<Rightarrow> int \<Rightarrow> int \<Rightarrow> error + job list" where
  "get_pipeline_jobs api project_id pipeline_id =
     (case str_getitem ''Get jobs for a specific pipeline'' 36 of
        Inl e \<Rightarrow> Inl e
      | Inr _ \<Rightarrow> Inr (get_pipeline_jobs_try api project_id pipeline_id))"

section \<open>Status glyphs\<close>

definition colors :: "(string \<times> glyph) list" where
  "colors =
     [(''success'', Green), (''failed'', Red), (''running'', Blue), (''pending'', Yellow),
      (''canceled'', White), (''skipped'', Black), (''created'', Yellow), (''manual'', Orange)]"

text \<open>\<^verbatim>\<open>colors.get(status, white)\<close>; \<^verbatim>\<open>None\<close> is a key no entry has.\<close>

definition colors_get :: "string option \<Rightarrow> glyph" where
  "colors_get status =
     (case status of
        None \<Rightarrow> White
      | Some s \<Rightarrow> (case map_of colors s of None \<Rightarrow> White | Some g \<Rightarrow> g))"

definition get_status_color :: "string option \<Rightarrow> error + glyph" where
  "get_status_color status =
     (case str_getitem ''Return color based on pipeline status'' 6 of
        Inl e \<Rightarrow> Inl e
      | Inr c \<Rightarrow>
          (case str_getitem c 10 of
             Inl e \<Rightarrow> Inl e
           | Inr _ \<Rightarrow> Inr (colors_get status)))"

section \<open>The standard library's dates\<close>

text \<open>
  \<^verbatim>\<open>datetime\<close> and \<^verbatim>\<open>timedelta\<close> of Python's standard library, as far as the two
  formatting functions use them. A \<open>tzinfo\<close> is \<open>None\<close> for a naive value and a fixed
  offset east of UTC, in seconds, otherwise.
\<close>

type_synonym tzinfo = "int option"

record datetime =
  year :: nat
  month :: nat
  day :: nat
  hour :: nat
  minute :: nat
  second :: nat
  microsecond :: nat
  tzinfo :: tzinfo

record timedelta =
  days :: int
  seconds :: int
  microseconds :: int

text \<open>
  The constructor \<^verbatim>\<open>timedelta(days, seconds, microseconds)\<close> normalises its arguments:
  \<open>0 \<le> seconds < 86400\<close> and \<open>0 \<le> microseconds < 1000000\<close>, the sign is carried by
  \<open>days\<close> alone.
\<close>

definition mk_timedelta :: "int \<Rightarrow> int \<Rightarrow> int \<Rightarrow> timedelta" where
  "mk_timedelta d s us =
     (let total = (d * 86400 + s) * 1000000 + us
      in \<lparr>days = total div 86400000000,
          seconds = (total mod 86400000000) div 1000000,
          microseconds = total mod 1000000\<rparr>)"

definition is_leap :: "nat \<Rightarrow> bool" where
  "is_leap y = (y mod 4 = 0 \<and> (y mod 100 \<noteq> 0 \<or> y mod 400 = 0))"

definition days_in_month :: "nat \<Rightarrow> nat \<Rightarrow> nat" where
  "days_in_month y m =
     (if m = 2 \<and> is_leap y then 29
      else [31, 28, 31, 30, 31, 30, 31, 31, 30, 31, 30, 31] ! (m - 1))"

definition days_before_year :: "nat \<Rightarrow> int" where
  "days_before_year y =
     (let y1 = int y - 1 in y1 * 365 + y1 div 4 - y1 div 100 + y1 div 400)"

definition days_before_month :: "nat \<Rightarrow> nat \<Rightarrow> int" where
  "days_before_month y m =
     [0, 31, 59, 90, 120, 151, 181, 212, 243, 273, 304, 334] ! (m - 1)
       + (if 2 < m \<and> is_leap y then 1 else 0)"

text \<open>\<^verbatim>\<open>toordinal()\<close>: the day number, 1 for 0001-01-01 (for a month in 1..12).\<close>

definition toordinal :: "datetime \<Rightarrow> int" where
  "toordinal dt =
     days_before_year (year dt) + days_before_month (year dt) (month dt) + int (day dt)"

text \<open>
  \<^verbatim>\<open>a - b\<close> on two datetimes: the difference of the wall-clock fields when both carry
  the same \<open>tzinfo\<close>, corrected by the two offsets when both are aware, and a TypeError
  when one is naive and the other aware.
\<close>

definition datetime_sub :: "datetime \<Rightarrow> datetime \<Rightarrow> error + timedelta" where
  "datetime_sub a b =
     (let secs = (\<lambda>x. int (second x) + int (minute x) * 60 + int (hour x) * 3600);
          d = toordinal a - toordinal b;
          s = secs a - secs b;
          us = int (microsecond a) - int (microsecond b)
      in if tzinfo a = tzinfo b then Inr (mk_timedelta d s us)
         else (case (tzinfo a, tzinfo b) of
                 (Some oa, Some ob) \<Rightarrow> Inr (mk_timedelta d (s + ob - oa) us)
               | _ \<Rightarrow> Inl TypeError))"

text \<open>A number printed in at least \<open>w\<close> digits, zeros first.\<close>

definition zero_pad :: "nat \<Rightarrow> nat \<Rightarrow> string" where
  "zero_pad w n = replicate (w - length (digits n)) CHR ''0'' @ digits n"

text \<open>
  \<^verbatim>\<open>dt.strftime("%Y-%m-%d %H:%M:%S")\<close>. (For a year below 1000 the width of \<^verbatim>\<open>%Y\<close>
  depends on the C library; four digits are printed here.)
\<close>

definition strftime :: "datetime \<Rightarrow> string" where
  "strftime dt =
     zero_pad 4 (year dt) @ ''-'' @ zero_pad 2 (month dt) @ ''-'' @ zero_pad 2 (day dt)
       @ '' '' @ zero_pad 2 (hour dt) @ '':'' @ zero_pad 2 (minute dt)
       @ '':'' @ zero_pad 2 (second dt)"

text \<open>\<^verbatim>\<open>s.replace('Z', '+00:00')\<close>: every \<^verbatim>\<open>Z\<close> of the string, wherever it stands.\<close>

definition replace_Z :: "string \<Rightarrow> string" where
  "replace_Z s = concat (map (\<lambda>c. if c = CHR ''Z'' then ''+00:00'' else [c]) s)"

subsection \<open>A reference reader of ISO timestamps\<close>

text \<open>
  \<^verbatim>\<open>datetime.fromisoformat\<close> is the library's, and what it accepts has grown from one
  Python version to the next. The two formatting functions therefore take the reader as
  a parameter (\<open>None\<close> when it raises ValueError), and every general statement below holds
  for whatever reader is given. \<open>fromisoformat\<close> is a reader for the examples: it reads
  the strings that all versions since 3.7 read alike and the platform sends,
  \<^verbatim>\<open>YYYY-MM-DD\<close>, alone or followed by one separator character and \<^verbatim>\<open>HH:MM:SS\<close>, then
  an optional fraction of three or six digits, then an optional offset \<^verbatim>\<open>+HH:MM\<close> or
  \<^verbatim>\<open>-HH:MM\<close>, and it rejects every other string.
\<close>

definition digit :: "char \<Rightarrow> nat option" where
  "digit c = (if CHR ''0'' \<le> c \<and> c \<le> CHR ''9'' then Some (of_char c - 48) else None)"

fun number_from :: "nat \<Rightarrow> string \<Rightarrow> nat option" where
  "number_from acc [] = Some acc"
| "number_from acc (c # cs) =
     (case digit c of None \<Rightarrow> None | Some d \<Rightarrow> number_from (acc * 10 + d) cs)"

definition number :: "string \<Rightarrow> nat option" where
  "number s = (if s = [] then None else number_from 0 s)"

definition parse_date :: "string \<Rightarrow> (nat \<times> nat \<times> nat) option" where
  "parse_date s =
     (if length s \<noteq> 10 \<or> s ! 4 \<noteq> CHR ''-'' \<or> s ! 7 \<noteq> CHR ''-'' then None
      else (case (number (take 4 s), number (take 2 (drop 5 s)), number (drop 8 s)) of
              (Some y, Some m, Some d) \<Rightarrow>
                if 1 \<le> y \<and> 1 \<le> m \<and> m \<le> 12 \<and> 1 \<le> d \<and> d \<le> days_in_month y m
                then Some (y, m, d) else None
            | _ \<Rightarrow> None))"

definition parse_hms :: "string \<Rightarrow> (nat \<times> nat \<times> nat) option" where
  "parse_hms s =
     (if length s \<noteq> 8 \<or> s ! 2 \<noteq> CHR '':'' \<or> s ! 5 \<noteq> CHR '':'' then None
      else (case (number (take 2 s), number (take 2 (drop 3 s)), number (drop 6 s)) of
              (Some h, Some m, Some sec) \<Rightarrow>
                if h < 24 \<and> m < 60 \<and> sec < 60 then Some (h, m, sec) else None
            | _ \<Rightarrow> None))"

definition parse_fraction :: "string \<Rightarrow> nat option" where
  "parse_fraction s =
     (if s = [] then Some 0
      else if hd s \<noteq> CHR ''.'' then None
      else if length s = 4 then map_option (\<lambda>n. n * 1000) (number (tl s))
      else if length s = 7 then number (tl s)
      else None)"

definition parse_offset :: "string \<Rightarrow> tzinfo option" where
  "parse_offset s =
     (if s = [] then Some None
      else if length s \<noteq> 6 \<or> s ! 3 \<noteq> CHR '':'' \<or> (hd s \<noteq> CHR ''+'' \<and> hd s \<noteq> CHR ''-'') then None
      else (case (number (take 2 (tl s)), number (drop 4 s)) of
              (Some h, Some m) \<Rightarrow>
                if h < 24 \<and> m < 60
                then Some (Some ((if hd s = CHR ''-'' then - 1 else 1) * (int h * 3600 + int m * 60)))
                else None
            | _ \<Rightarrow> None))"

definition fromisoformat :: "string \<Rightarrow> datetime option" where
  "fromisoformat s =
     (case parse_date (take 10 s) of
        None \<Rightarrow> None
      | Some (y, m, d) \<Rightarrow>
          if length s = 10
          then Some \<lparr>year = y, month = m, day = d, hour = 0, minute = 0, second = 0,
                     microsecond = 0, tzinfo = None\<rparr>
          else
            (let t = drop 11 s;
                 clock = takeWhile (\<lambda>c. c \<noteq> CHR ''+'' \<and> c \<noteq> CHR ''-'') t;
                 offset = dropWhile (\<lambda>c. c \<noteq> CHR ''+'' \<and> c \<noteq> CHR ''-'') t
             in (case (parse_hms (take 8 clock), parse_fraction (drop 8 clock),
                       parse_offset offset) of
                   (Some (h, mi, sec), Some us, Some tz) \<Rightarrow>
                     Some \<lparr>year = y, month = m, day = d, hour = h, minute = mi, second = sec,
                           microsecond = us, tzinfo = tz\<rparr>
                 | _ \<Rightarrow> None)))"

section \<open>The two formatting functions\<close>

text \<open>
  The body of the \<^verbatim>\<open>try\<close> of \<open>format_datetime\<close> (lines 58 and 59). The bare
  \<^verbatim>\<open>except\<close> around it catches every exception.
\<close>

definition format_datetime_try :: "(string \<Rightarrow> datetime option) \<Rightarrow> string \<Rightarrow> error + string" where
  "format_datetime_try parse s =
     (case parse (replace_Z s) of None \<Rightarrow> Inl ValueError | Some dt \<Rightarrow> Inr (strftime dt))"

definition format_datetime :: "(string \<Rightarrow> datetime option) \<Rightarrow> string option \<Rightarrow> string" where
  "format_datetime parse dt_string =
     (case dt_string of
        None \<Rightarrow> ''N/A''
      | Some s \<Rightarrow>
          if s = [] then ''N/A''
          else (case format_datetime_try parse s of Inl _ \<Rightarrow> s | Inr out \<Rightarrow> out))"

text \<open>Lines 73 to 82: the text for a difference \<^verbatim>\<open>delta = now - dt\<close>.\<close>

definition time_ago_of :: "timedelta \<Rightarrow> string" where
  "time_ago_of delta =
     (if days delta > 0 then str_int (days delta) @ '' days ago''
      else if seconds delta > 3600 then str_int (seconds delta div 3600) @ '' hours ago''
      else if seconds delta > 60 then str_int (seconds delta div 60) @ '' minutes ago''
      else ''Just now'')"

text \<open>
  The body of the \<^verbatim>\<open>try\<close> of \<open>get_time_ago\<close> (lines 69 to 82); \<open>now tz\<close> is what
  \<^verbatim>\<open>datetime.now(tz)\<close> returns when it is called.
\<close>

definition get_time_ago_try ::
  "(string \<Rightarrow> datetime option) \<Rightarrow> (tzinfo \<Rightarrow> datetime) \<Rightarrow> string \<Rightarrow> error + string" where
  "get_time_ago_try parse now s =
     (case parse (replace_Z s) of
        None \<Rightarrow> Inl ValueError
      | Some dt \<Rightarrow>
          (case datetime_sub (now (tzinfo dt)) dt of
             Inl e \<Rightarrow> Inl e
           | Inr delta \<Rightarrow> Inr (time_ago_of delta)))"

definition get_time_ago ::
  "(string \<Rightarrow> datetime option) \<Rightarrow> (tzinfo \<Rightarrow> datetime) \<Rightarrow> string option \<Rightarrow> string" where
  "get_time_ago parse now dt_string =
     (case dt_string of
        None \<Rightarrow> ''N/A''
      | Some s \<Rightarrow>
          if s = [] then ''N/A''
          else (case get_time_ago_try parse now s of Inl _ \<Rightarrow> ''N/A'' | Inr out \<Rightarrow> out))"

text \<open>A clock that reads 2024-01-02T00:00:00 in the zone it is asked for.\<close>

definition clock_2024_01_02 :: "tzinfo \<Rightarrow> datetime" where
  "clock_2024_01_02 tz =
     \<lparr>year = 2024, month = 1, day = 2, hour = 0, minute = 0, second = 0,
      microsecond = 0, tzinfo = tz\<rparr>"

section \<open>The script\<close>

subsection \<open>Collecting the pipelines (lines 164 to 185)\<close>

definition user_name :: "juser \<Rightarrow> string option" where
  "user_name u =
     (case u of
        User_absent \<Rightarrow> Some ''N/A''
      | User_null \<Rightarrow> Some ''N/A''
      | User_obj n \<Rightarrow> get_default n (Some ''N/A''))"

text \<open>
  The dictionary of lines 173 to 183, its values evaluated in the order they are written:
  the subscripts raise KeyError for a key that is not there, the \<^verbatim>\<open>get\<close>s do not.
\<close>

definition pipeline_row :: "project \<Rightarrow> pipeline \<Rightarrow> error + row" where
  "pipeline_row project pipeline =
     (case getitem ''name'' (p_name project) of
        Inl e \<Rightarrow> Inl e
      | Inr nm \<Rightarrow>
     (case p_id project of
        None \<Rightarrow> Inl (KeyError ''id'')
      | Some pid \<Rightarrow>
     (case pl_id pipeline of
        None \<Rightarrow> Inl (KeyError ''id'')
      | Some plid \<Rightarrow>
     (case getitem ''status'' (pl_status pipeline) of
        Inl e \<Rightarrow> Inl e
      | Inr st \<Rightarrow>
     (case getitem ''ref'' (pl_ref pipeline) of
        Inl e \<Rightarrow> Inl e
      | Inr br \<Rightarrow>
          Inr \<lparr>Project = nm, Project_ID = pid, Pipeline_ID = plid, Status = st,
               Branch = br,
               Created = get_default (pl_created_at pipeline) (Some []),
               Updated = get_default (pl_updated_at pipeline) (Some []),
               Web_URL = get_default (pl_web_url pipeline) (Some []),
               User = user_name (pl_user pipeline)\<rparr>)))))"

text \<open>The inner loop (line 172): one row appended per pipeline of the reply.\<close>

fun append_rows :: "project \<Rightarrow> pipeline list \<Rightarrow> row list \<Rightarrow> error + row list" where
  "append_rows project [] acc = Inr acc"
| "append_rows project (pipeline # rest) acc =
     (case pipeline_row project pipeline of
        Inl e \<Rightarrow> Inl e
      | Inr r \<Rightarrow> append_rows project rest (acc @ [r]))"

text \<open>
  The outer loop (line 168) over the projects as the group's reply lists them, with the
  rows collected so far and the page so far. Line 169 reads the project's name, line 170
  its id, and asks for five pipelines.
\<close>

fun all_pipelines_data ::
  "gitlab \<Rightarrow> project list \<Rightarrow> row list \<Rightarrow> event list \<Rightarrow> error + (row list \<times> event list)" where
  "all_pipelines_data api [] acc ui = Inr (acc, ui)"
| "all_pipelines_data api (project # rest) acc ui =
     (case getitem ''name'' (p_name project) of
        Inl e \<Rightarrow> Inl e
      | Inr _ \<Rightarrow>
     (case p_id project of
        None \<Rightarrow> Inl (KeyError ''id'')
      | Some pid \<Rightarrow>
     (case get_project_pipelines api pid 5 ui of
        Inl e \<Rightarrow> Inl e
      | Inr (pipelines, ui') \<Rightarrow>
     (case append_rows project pipelines acc of
        Inl e \<Rightarrow> Inl e
      | Inr acc' \<Rightarrow> all_pipelines_data api rest acc' ui'))))"

subsection \<open>The overview (lines 190 to 227)\<close>

definition success_count :: "row list \<Rightarrow> nat" where
  "success_count df = length (filter (\<lambda>p. Status p = Some ''success'') df)"

definition failed_count :: "row list \<Rightarrow> nat" where
  "failed_count df = length (filter (\<lambda>p. Status p = Some ''failed'') df)"

definition running_count :: "row list \<Rightarrow> nat" where
  "running_count df = length (filter (\<lambda>p. Status p = Some ''running'') df)"

definition pending_count :: "row list \<Rightarrow> nat" where
  "pending_count df =
     length (filter (\<lambda>p. Status p \<in> set [Some ''pending'', Some ''created'']) df)"

text \<open>\<^verbatim>\<open>Series.apply(get_status_color)\<close>: one call per entry, the first exception ends it.\<close>

fun apply_status_color :: "string option list \<Rightarrow> error + glyph list" where
  "apply_status_color [] = Inr []"
| "apply_status_color (s # ss) =
     (case get_status_color s of
        Inl e \<Rightarrow> Inl e
      | Inr g \<Rightarrow>
          (case apply_status_color ss of Inl e \<Rightarrow> Inl e | Inr gs \<Rightarrow> Inr (g # gs)))"

definition shown :: "(string \<Rightarrow> datetime option) \<Rightarrow> (tzinfo \<Rightarrow> datetime) \<Rightarrow> glyph \<times> row \<Rightarrow> display_row" where
  "shown parse now gp =
     (case gp of (g, p) \<Rightarrow>
        \<lparr>Status_Icon = g, shown_Project = Project p, shown_Branch = Branch p,
         shown_Status = Status p, shown_Created = format_datetime parse (Created p),
         Time_Ago = get_time_ago parse now (Updated p), shown_User = User p\<rparr>)"

definition overview ::
  "(string \<Rightarrow> datetime option) \<Rightarrow> (tzinfo \<Rightarrow> datetime) \<Rightarrow> row list \<Rightarrow> error + event list" where
  "overview parse now df =
     (if df = [] then Inr []
      else
        (case apply_status_color (map Status df) of
           Inl e \<Rightarrow> Inl e
         | Inr icons \<Rightarrow>
             Inr [Metric ''Successful'' (success_count df),
                  Metric ''Failed'' (failed_count df),
                  Metric ''Running'' (running_count df),
                  Metric ''Pending'' (pending_count df),
                  Dataframe (map (shown parse now) (zip icons df))]))"

subsection \<open>The pending pipelines (lines 229 to 258)\<close>

definition pending_df :: "row list \<Rightarrow> row list" where
  "pending_df rows =
     filter (\<lambda>p. Status p \<in> set [Some ''pending'', Some ''created'', Some ''running'']) rows"

text \<open>Lines 254 to 256: one line per job.\<close>

fun job_lines :: "job list \<Rightarrow> error + (glyph \<times> string option \<times> string option) list" where
  "job_lines [] = Inr []"
| "job_lines (j # js) =
     (case getitem ''status'' (j_status j) of
        Inl e \<Rightarrow> Inl e
      | Inr s \<Rightarrow>
     (case get_status_color s of
        Inl e \<Rightarrow> Inl e
      | Inr g \<Rightarrow>
     (case getitem ''name'' (j_name j) of
        Inl e \<Rightarrow> Inl e
      | Inr n \<Rightarrow>
     (case job_lines js of
        Inl e \<Rightarrow> Inl e
      | Inr ls \<Rightarrow> Inr ((g, n, s) # ls)))))"

text \<open>Lines 236 to 256: one expander per pending pipeline.\<close>

fun expanders ::
  "(string \<Rightarrow> datetime option) \<Rightarrow> gitlab \<Rightarrow> row list \<Rightarrow> error + event list" where
  "expanders parse api [] = Inr []"
| "expanders parse api (p # ps) =
     (case get_status_color (Status p) of
        Inl e \<Rightarrow> Inl e
      | Inr icon \<Rightarrow>
     (case get_pipeline_jobs api (Project_ID p) (Pipeline_ID p) of
        Inl e \<Rightarrow> Inl e
      | Inr jobs \<Rightarrow>
     (case job_lines jobs of
        Inl e \<Rightarrow> Inl e
      | Inr ls \<Rightarrow>
     (case expanders parse api ps of
        Inl e \<Rightarrow> Inl e
      | Inr es \<Rightarrow> Inr (Expander icon p (format_datetime parse (Created p)) ls # es)))))"

definition pending_tab ::
  "(string \<Rightarrow> datetime option) \<Rightarrow> gitlab \<Rightarrow> row list \<Rightarrow> error + event list" where
  "pending_tab parse api rows =
     (if pending_df rows = [] then Inr [Info ''No pending pipelines found!'']
      else expanders parse api (pending_df rows))"

subsection \<open>The recent successes (lines 260 to 286)\<close>

definition success_df :: "row list \<Rightarrow> row list" where
  "success_df rows = filter (\<lambda>p. Status p = Some ''success'') rows"

text \<open>
  \<^verbatim>\<open>sort_values('Updated', ascending=False)\<close> orders the frame by its \<^verbatim>\<open>Updated\<close>
  column, a column of strings compared as Python compares strings, largest first, and
  puts the entries without a value (\<^verbatim>\<open>None\<close>) last. \<open>goes_before a b\<close> says that key
  \<open>a\<close> may stand before key \<open>b\<close> in the result. pandas does not promise an order among
  equal keys; the sort below keeps them in the order of the frame, and the statements
  proved of it do not depend on that choice.
\<close>

definition goes_before :: "string option \<Rightarrow> string option \<Rightarrow> bool" where
  "goes_before a b =
     (case b of
        None \<Rightarrow> True
      | Some y \<Rightarrow> (case a of None \<Rightarrow> False | Some x \<Rightarrow> y \<le> x))"

fun insert_row :: "row \<Rightarrow> row list \<Rightarrow> row list" where
  "insert_row r [] = [r]"
| "insert_row r (x # xs) =
     (if goes_before (Updated r) (Updated x) then r # x # xs else x # insert_row r xs)"

definition sort_values_Updated :: "row list \<Rightarrow> row list" where
  "sort_values_Updated df = foldr insert_row df []"

text \<open>\<^verbatim>\<open>success_df.sort_values(...).head(10)\<close>: the rows the tab shows.\<close>

definition recent_successes :: "row list \<Rightarrow> row list" where
  "recent_successes rows = take 10 (sort_values_Updated (success_df rows))"

definition success_tab ::
  "(string \<Rightarrow> datetime option) \<Rightarrow> (tzinfo \<Rightarrow> datetime) \<Rightarrow> row list \<Rightarrow> event list" where
  "success_tab parse now rows =
     (if success_df rows = [] then [Info ''No successful pipelines found!'']
      else map (\<lambda>p. Container p (get_time_ago parse now (Updated p))) (recent_successes rows))"

subsection \<open>The whole script (lines 100 to 290)\<close>

text \<open>What the user has entered in the sidebar when the script runs.\<close>

record sidebar =
  gitlab_url :: string
  access_token :: string
  group_id :: string
  auto_refresh :: bool
  refresh_now :: bool

text \<open>
  One run of \<^verbatim>\<open>main()\<close>: the page it builds, or the exception that ends it. What was
  shown before an exception is not kept.
\<close>

definition main ::
  "(string \<Rightarrow> datetime option) \<Rightarrow> (tzinfo \<Rightarrow> datetime) \<Rightarrow> gitlab \<Rightarrow> sidebar \<Rightarrow> error + event list" where
  "main parse now api sb =
     (if auto_refresh sb then Inl RerunException
      else if refresh_now sb then Inl RerunException
      else if gitlab_url sb = [] \<or> access_token sb = [] \<or> group_id sb = []
      then Inr [Warning ''Please provide GitLab URL, Access Token, and Group ID in the sidebar.'']
      else
        (case get_group_projects api (group_id sb) [] of
           Inl e \<Rightarrow> Inl e
         | Inr (projects, ui) \<Rightarrow>
             if projects = []
             then Inr (ui @ [Error ''No projects found or unable to access the group.''])
             else
               (case all_pipelines_data api projects []
                       (ui @ [Success (''Found '' @ str_int (int (length projects))
                                        @ '' projects in the group'')]) of
                  Inl e \<Rightarrow> Inl e
                | Inr (rows, ui') \<Rightarrow>
               (case overview parse now rows of
                  Inl e \<Rightarrow> Inl e
                | Inr tab1 \<Rightarrow>
               (case pending_tab parse api rows of
                  Inl e \<Rightarrow> Inl e
                | Inr tab2 \<Rightarrow> Inr (ui' @ tab1 @ tab2 @ success_tab parse now rows))))))"

section \<open>Vocabulary of the statements\<close>

text \<open>
  A project or pipeline record that has the keys the loop subscripts
  (\<^verbatim>\<open>name\<close> and \<^verbatim>\<open>id\<close>; \<^verbatim>\<open>id\<close>, \<^verbatim>\<open>status\<close> and \<^verbatim>\<open>ref\<close>).
\<close>

definition project_ok :: "project \<Rightarrow> bool" where
  "project_ok p = (p_name p \<noteq> Absent \<and> p_id p \<noteq> None)"

definition pipeline_ok :: "pipeline \<Rightarrow> bool" where
  "pipeline_ok pl = (pl_id pl \<noteq> None \<and> pl_status pl \<noteq> Absent \<and> pl_ref pl \<noteq> Absent)"

text \<open>
  The platform answers the project's pipeline request with records that have their keys,
  or the request fails.
\<close>

definition reply_ok :: "gitlab \<Rightarrow> project \<Rightarrow> bool" where
  "reply_ok api p =
     (case p_id p of
        None \<Rightarrow> False
      | Some i \<Rightarrow>
          (case projects_pipelines api i 5 of
             Json pls \<Rightarrow> list_all pipeline_ok pls
           | RequestException _ \<Rightarrow> True))"

definition fetch_fails :: "gitlab \<Rightarrow> project \<Rightarrow> bool" where
  "fetch_fails api p =
     (case p_id p of
        None \<Rightarrow> False
      | Some i \<Rightarrow>
          (case projects_pipelines api i 5 of Json _ \<Rightarrow> False | RequestException _ \<Rightarrow> True))"

text \<open>
  The rows one project adds to the collection (the inner loop run on the project's own
  reply; none when its request fails), and the message one project adds to the page.
\<close>

definition contribution :: "gitlab \<Rightarrow> project \<Rightarrow> row list" where
  "contribution api p =
     (case p_id p of
        None \<Rightarrow> []
      | Some i \<Rightarrow>
          (case projects_pipelines api i 5 of
             Json pls \<Rightarrow> (case append_rows p pls [] of Inl _ \<Rightarrow> [] | Inr rs \<Rightarrow> rs)
           | RequestException _ \<Rightarrow> []))"

definition complaint :: "gitlab \<Rightarrow> project \<Rightarrow> event list" where
  "complaint api p =
     (case p_id p of
        None \<Rightarrow> []
      | Some i \<Rightarrow>
          (case projects_pipelines api i 5 of
             Json _ \<Rightarrow> []
           | RequestException e \<Rightarrow>
               [Error (''Error fetching pipelines for project '' @ str_int i @ '': '' @ e)]))"

text \<open>
  Two instants of the zone +00:00: one minute and one hour before that clock's reading.
\<close>

definition dt_23_59 :: datetime where
  "dt_23_59 =
     \<lparr>year = 2024, month = 1, day = 1, hour = 23, minute = 59, second = 0,
      microsecond = 0, tzinfo = Some 0\<rparr>"

definition dt_23_00 :: datetime where
  "dt_23_00 =
     \<lparr>year = 2024, month = 1, day = 1, hour = 23, minute = 0, second = 0,
      microsecond = 0, tzinfo = Some 0\<rparr>"

section \<open>A small group\<close>

text \<open>
  The scenario of the specification: a group with the projects A (id 1) and B (id 2);
  project 1 has one pipeline (id 10, succeeded, on \<^verbatim>\<open>main\<close>), and the request for
  project 2's pipelines fails. In \<open>quiet_group\<close> project 2 answers with no pipelines
  instead, and \<open>unreachable_group\<close> is a group whose project list cannot be fetched.
  \<open>row_11\<close> is a pipeline of project 1 that is still running, and \<open>row_12\<close> a
  pipeline of project 2 that succeeded later than pipeline 10.
\<close>

definition project_A :: project where
  "project_A = \<lparr>p_name = Str ''A'', p_id = Some 1\<rparr>"

definition project_B :: project where
  "project_B = \<lparr>p_name = Str ''B'', p_id = Some 2\<rparr>"

definition pipeline_10 :: pipeline where
  "pipeline_10 =
     \<lparr>pl_id = Some 10, pl_status = Str ''success'', pl_ref = Str ''main'',
      pl_created_at = Absent, pl_updated_at = Str ''2024-01-01T23:00:00Z'',
      pl_web_url = Absent, pl_user = User_absent\<rparr>"

definition failing_group :: gitlab where
  "failing_group =
     \<lparr>groups_projects = (\<lambda>g. Json [project_A, project_B]),
      projects_pipelines =
        (\<lambda>i n. if i = 1 then Json [pipeline_10] else RequestException ''timed out''),
      pipelines_jobs = (\<lambda>i k. RequestException ''timed out'')\<rparr>"

definition quiet_group :: gitlab where
  "quiet_group =
     \<lparr>groups_projects = (\<lambda>g. Json [project_A, project_B]),
      projects_pipelines = (\<lambda>i n. if i = 1 then Json [pipeline_10] else Json []),
      pipelines_jobs = (\<lambda>i k. RequestException ''timed out'')\<rparr>"

definition unreachable_group :: gitlab where
  "unreachable_group =
     \<lparr>groups_projects = (\<lambda>g. RequestException ''404 Not Found''),
      projects_pipelines = (\<lambda>i n. Json []),
      pipelines_jobs = (\<lambda>i k. Json [])\<rparr>"

definition row_10 :: row where
  "row_10 =
     \<lparr>Project = Some ''A'', Project_ID = 1, Pipeline_ID = 10, Status = Some ''success'',
      Branch = Some ''main'', Created = Some [], Updated = Some ''2024-01-01T23:00:00Z'',
      Web_URL = Some [], User = Some ''N/A''\<rparr>"

definition row_11 :: row where
  "row_11 =
     \<lparr>Project = Some ''A'', Project_ID = 1, Pipeline_ID = 11, Status = Some ''running'',
      Branch = Some ''main'', Created = Some [], Updated = Some ''2024-01-01T23:30:00Z'',
      Web_URL = Some [], User = Some ''N/A''\<rparr>"

definition row_12 :: row where
  "row_12 =
     \<lparr>Project = Some ''B'', Project_ID = 2, Pipeline_ID = 12, Status = Some ''success'',
      Branch = Some ''main'', Created = Some [], Updated = Some ''2024-01-01T23:45:00Z'',
      Web_URL = Some [], User = Some ''N/A''\<rparr>"

definition filled_sidebar :: sidebar where
  "filled_sidebar =
     \<lparr>gitlab_url = ''https://gitlab.com'', access_token = ''secret'', group_id = ''42'',
      auto_refresh = False, refresh_now = False\<rparr>"

section \<open>Properties\<close>

subsection \<open>The subscripted string literals\<close>

lemma docstring_subscripts:
  "str_getitem ''Get all projects in a group'' 22 = Inr ''g''"
  "str_getitem ''Get pipelines for a specific project'' 22 = Inr ''e''"
  "str_getitem ''Get jobs for a specific pipeline'' 36 = Inl IndexError"
  "str_getitem ''Return color based on pipeline status'' 6 = Inr '' ''"
  "str_getitem '' '' 10 = Inl IndexError"
  by (simp_all add: str_getitem_def)

subsection \<open>Status glyphs\<close>

text \<open>
  The dictionary lookup of line 98 has a glyph for every status, the white circle for a
  status it does not list.
\<close>

lemma colors_get_known:
  "colors_get (Some ''success'') = Green"
  "colors_get (Some ''failed'') = Red"
  "colors_get (Some ''running'') = Blue"
  "colors_get (Some ''pending'') = Yellow"
  "colors_get (Some ''created'') = Yellow"
  "colors_get (Some ''weird_status'') = White"
  "colors_get None = White"
  by (simp_all add: colors_get_def colors_def)

text \<open>
  Claim C5 says that the status-to-glyph mapping returns a glyph for every string and
  never raises. The function of the source does not get as far as its dictionary: line 87
  subscripts the one-character string \<^verbatim>\<open>"Return color based on pipeline status"[6]\<close>
  at index 10, which raises IndexError, whatever the status is.
\<close>

theorem get_status_color_raises: "get_status_color status = Inl IndexError"
  by (simp add: get_status_color_def str_getitem_def)

subsection \<open>The job list\<close>

text \<open>The \<^verbatim>\<open>try\<close> by itself turns a failed request into the empty list.\<close>

lemma get_pipeline_jobs_try_swallows:
  "pipelines_jobs api project_id pipeline_id = RequestException e \<Longrightarrow>
     get_pipeline_jobs_try api project_id pipeline_id = []"
  by (simp add: get_pipeline_jobs_try_def)

text \<open>
  Claim C6 says that a failed job request yields the empty list and never an error. The
  function of the source raises before it sends the request: line 42 subscripts a string
  of 32 characters at index 36, outside the \<^verbatim>\<open>try\<close>, so every call ends in IndexError,
  whether the request would have failed or not.
\<close>

theorem get_pipeline_jobs_raises:
  "get_pipeline_jobs api project_id pipeline_id = Inl IndexError"
  by (simp add: get_pipeline_jobs_def str_getitem_def)

subsection \<open>Timestamps that are empty or cannot be read\<close>

lemma not_a_date_unreadable: "fromisoformat (replace_Z ''not-a-date'') = None"
  by code_simp

lemma empty_unreadable: "fromisoformat (replace_Z '''') = None"
  by code_simp

text \<open>
  Claim C10: for an empty or missing timestamp (the empty string, \<^verbatim>\<open>None\<close>) both
  functions return \<^verbatim>\<open>"N/A"\<close>, whatever the reader and the clock are; in particular
  \<open>format_datetime\<close> does not hand the empty string back.
\<close>

theorem empty_timestamp_is_NA:
  "format_datetime parse None = ''N/A''
   \<and> format_datetime parse (Some '''') = ''N/A''
   \<and> get_time_ago parse now None = ''N/A''
   \<and> get_time_ago parse now (Some '''') = ''N/A''
   \<and> format_datetime parse (Some '''') \<noteq> ''''"
  by (simp add: format_datetime_def get_time_ago_def)

text \<open>
  Claim C8 says that for every string that is not a readable timestamp
  \<open>format_datetime\<close> returns the string unchanged. The empty string is not readable, and
  line 54 answers it with \<^verbatim>\<open>"N/A"\<close> before any reading is tried.
\<close>

theorem unreadable_unchanged_counterexample:
  "fromisoformat (replace_Z '''') = None
   \<and> format_datetime fromisoformat (Some '''') \<noteq> ''''"
  using empty_unreadable by (simp add: format_datetime_def)

text \<open>
  Claim C8 as amended: for every string that is not empty and that the reader rejects,
  \<open>format_datetime\<close> returns the string unchanged and \<open>get_time_ago\<close> returns
  \<^verbatim>\<open>"N/A"\<close>. Both functions are total: every exception of their \<^verbatim>\<open>try\<close> is caught, so
  their results are strings for every input.
\<close>

theorem unreadable_timestamp:
  assumes "s \<noteq> []" and "parse (replace_Z s) = None"
  shows "format_datetime parse (Some s) = s \<and> get_time_ago parse now (Some s) = ''N/A''"
  using assms
  by (simp add: format_datetime_def get_time_ago_def format_datetime_try_def
      get_time_ago_try_def)

theorem unreadable_timestamp_witness:
  "format_datetime fromisoformat (Some ''not-a-date'') = ''not-a-date''
   \<and> get_time_ago fromisoformat clock_2024_01_02 (Some ''not-a-date'') = ''N/A''"
  using unreadable_timestamp [of "''not-a-date''" fromisoformat clock_2024_01_02]
    not_a_date_unreadable
  by simp

subsection \<open>The pending metric and the pending view\<close>

lemma pending_df_split: "length (pending_df rows) = pending_count rows + running_count rows"
  by (induction rows) (auto simp: pending_df_def pending_count_def running_count_def)

lemma running_count_pos:
  "p \<in> set rows \<Longrightarrow> Status p = Some ''running'' \<Longrightarrow> 0 < running_count rows"
  by (auto simp: running_count_def filter_empty_conv)

text \<open>
  Claim C9: the metric of line 209 counts the pipelines whose status is \<^verbatim>\<open>pending\<close> or
  \<^verbatim>\<open>created\<close>, the view of line 233 keeps those and the running ones; so for a
  collection with a running pipeline the pending metric is strictly smaller than the
  size of the view.
\<close>

theorem pending_metric_below_view:
  assumes "p \<in> set rows" and "Status p = Some ''running''"
  shows "pending_count rows =
           length (filter (\<lambda>q. Status q = Some ''pending'' \<or> Status q = Some ''created'') rows)
         \<and> pending_df rows =
           filter (\<lambda>q. Status q = Some ''pending'' \<or> Status q = Some ''created''
                        \<or> Status q = Some ''running'') rows
         \<and> pending_count rows < length (pending_df rows)"
proof -
  have "0 < running_count rows"
    using assms by (rule running_count_pos)
  then have "pending_count rows < length (pending_df rows)"
    by (simp add: pending_df_split)
  moreover have "pending_count rows =
      length (filter (\<lambda>q. Status q = Some ''pending'' \<or> Status q = Some ''created'') rows)"
    by (simp add: pending_count_def)
  moreover have "pending_df rows =
      filter (\<lambda>q. Status q = Some ''pending'' \<or> Status q = Some ''created''
                   \<or> Status q = Some ''running'') rows"
    by (simp add: pending_df_def)
  ultimately show ?thesis by simp
qed

theorem pending_metric_below_view_witness:
  "pending_count [row_10, row_11] = 0 \<and> length (pending_df [row_10, row_11]) = 1"
proof -
  have "row_11 \<in> set [row_10, row_11]" by simp
  moreover have "Status row_11 = Some ''running''" by (simp add: row_11_def)
  ultimately have "pending_count [row_10, row_11] < length (pending_df [row_10, row_11])"
    using pending_metric_below_view [of row_11 "[row_10, row_11]"] by blast
  moreover have "length (pending_df [row_10, row_11]) = 1"
    by (simp add: pending_df_def row_10_def row_11_def)
  ultimately show ?thesis by simp
qed

subsection \<open>Collecting the pipelines\<close>

lemma pipeline_row_ok:
  assumes "project_ok p" and "pipeline_ok pl"
  shows "\<exists>r. pipeline_row p pl = Inr r"
  using assms
  by (cases "p_name p"; cases "pl_status pl"; cases "pl_ref pl")
     (auto simp: project_ok_def pipeline_ok_def pipeline_row_def getitem_def)

lemma append_rows_ok:
  assumes "project_ok p" and "list_all pipeline_ok pls"
  shows "\<exists>rs. length rs = length pls \<and> (\<forall>acc. append_rows p pls acc = Inr (acc @ rs))"
  using assms(2)
proof (induction pls)
  case Nil
  then show ?case by simp
next
  case (Cons pl pls)
  then obtain rs where rs: "length rs = length pls" "\<And>acc. append_rows p pls acc = Inr (acc @ rs)"
    by auto
  from Cons.prems assms(1) obtain r where r: "pipeline_row p pl = Inr r"
    using pipeline_row_ok by auto
  have "\<forall>acc. append_rows p (pl # pls) acc = Inr (acc @ r # rs)"
    by (simp add: r rs(2))
  with rs(1) show ?case
    by (intro exI [of _ "r # rs"]) simp
qed

lemma get_project_pipelines_eq:
  "get_project_pipelines api i n ui =
     (case projects_pipelines api i n of
        Json ps \<Rightarrow> Inr (ps, ui)
      | RequestException e \<Rightarrow>
          Inr ([], ui @ [Error (''Error fetching pipelines for project '' @ str_int i @ '': '' @ e)]))"
  by (simp add: get_project_pipelines_def str_getitem_def)

lemma all_pipelines_data_step:
  assumes "project_ok p" and "reply_ok api p"
  shows "all_pipelines_data api (p # rest) acc ui =
         all_pipelines_data api rest (acc @ contribution api p) (ui @ complaint api p)"
proof -
  from assms(1) obtain i where i: "p_id p = Some i" and nm: "p_name p \<noteq> Absent"
    by (auto simp: project_ok_def)
  from nm obtain v where v: "getitem ''name'' (p_name p) = Inr v"
    by (cases "p_name p") (auto simp: getitem_def)
  show ?thesis
  proof (cases "projects_pipelines api i 5")
    case (Json pls)
    with assms(2) i have "list_all pipeline_ok pls"
      by (simp add: reply_ok_def)
    with assms(1) obtain rs where rs: "\<And>acc. append_rows p pls acc = Inr (acc @ rs)"
      using append_rows_ok by blast
    from rs [of "[]"] have "contribution api p = rs"
      by (simp add: contribution_def i Json)
    moreover have "complaint api p = []"
      by (simp add: complaint_def i Json)
    ultimately show ?thesis
      by (simp add: v i get_project_pipelines_eq Json rs)
  next
    case (RequestException e)
    then have "contribution api p = []"
      by (simp add: contribution_def i)
    moreover have "complaint api p =
        [Error (''Error fetching pipelines for project '' @ str_int i @ '': '' @ e)]"
      by (simp add: complaint_def i RequestException)
    ultimately show ?thesis
      by (simp add: v i get_project_pipelines_eq RequestException)
  qed
qed

lemma all_pipelines_data_eq:
  assumes "list_all project_ok ps" and "list_all (reply_ok api) ps"
  shows "all_pipelines_data api ps acc ui =
         Inr (acc @ concat (map (contribution api) ps), ui @ concat (map (complaint api) ps))"
  using assms
proof (induction ps arbitrary: acc ui)
  case Nil
  then show ?case by simp
next
  case (Cons p ps)
  then have "project_ok p" "reply_ok api p" "list_all project_ok ps" "list_all (reply_ok api) ps"
    by simp_all
  then show ?case
    using Cons.IH [of "acc @ contribution api p" "ui @ complaint api p"]
    by (simp add: all_pipelines_data_step del: all_pipelines_data.simps)
qed

lemma pipeline_row_fields:
  assumes "pipeline_row p pl = Inr r"
  shows "Some (Project_ID r) = p_id p \<and> Some (Pipeline_ID r) = pl_id pl
         \<and> getitem ''name'' (p_name p) = Inr (Project r)
         \<and> getitem ''status'' (pl_status pl) = Inr (Status r)
         \<and> getitem ''ref'' (pl_ref pl) = Inr (Branch r)
         \<and> Updated r = get_default (pl_updated_at pl) (Some [])"
  using assms
  by (auto simp: pipeline_row_def split: sum.splits option.splits)

lemma append_rows_fields:
  assumes "append_rows p pls acc = Inr out"
  shows "map (\<lambda>r. Some (Pipeline_ID r)) out = map (\<lambda>r. Some (Pipeline_ID r)) acc @ map pl_id pls
         \<and> (\<forall>r\<in>set out. r \<in> set acc \<or> Some (Project_ID r) = p_id p)"
  using assms
proof (induction pls arbitrary: acc)
  case Nil
  then show ?case by simp
next
  case (Cons pl pls)
  from Cons.prems obtain r where r: "pipeline_row p pl = Inr r"
    and rest: "append_rows p pls (acc @ [r]) = Inr out"
    by (auto split: sum.splits)
  from Cons.IH [OF rest] pipeline_row_fields [OF r] show ?case
    by auto
qed

text \<open>
  What a project whose request succeeds adds: one row per pipeline of its reply, in the
  reply's order, each carrying the project's id.
\<close>

lemma contribution_rows:
  assumes "project_ok p" and "p_id p = Some i" and "projects_pipelines api i 5 = Json pls"
    and "list_all pipeline_ok pls"
  shows "map (\<lambda>r. Some (Pipeline_ID r)) (contribution api p) = map pl_id pls
         \<and> (\<forall>r\<in>set (contribution api p). Project_ID r = i)"
proof -
  from assms(1,4) obtain rs where "append_rows p pls [] = Inr rs"
    using append_rows_ok by fastforce
  moreover from this have "contribution api p = rs"
    by (simp add: contribution_def assms(2,3))
  ultimately show ?thesis
    using append_rows_fields [of p pls "[]" rs] assms(2) by auto
qed

lemma concat_map_filter:
  assumes "\<And>x. x \<in> set xs \<Longrightarrow> \<not> P x \<Longrightarrow> f x = []"
  shows "concat (map f xs) = concat (map f (filter P xs))"
  using assms by (induction xs) auto

lemma concat_map_replicate:
  assumes "\<And>x. x \<in> set xs \<Longrightarrow> P x \<Longrightarrow> f x = [m]"
    and "\<And>x. x \<in> set xs \<Longrightarrow> \<not> P x \<Longrightarrow> f x = []"
  shows "concat (map f xs) = replicate (length (filter P xs)) m"
  using assms by (induction xs) auto

text \<open>
  Claim C1 as amended: when the records have their keys and the pipeline request fails for
  exactly one project id \<open>k\<close> of the list, the loop runs to its end; the rows collected are
  the rows of every other project, in the order of the list, and nothing of project \<open>k\<close>;
  the page gets one error message naming \<open>k\<close> for each time \<open>k\<close> stands in the list.
  That message is the only trace of the failure: the script keeps no set of failed
  projects.
\<close>

theorem one_failure_tolerated:
  assumes ok: "list_all project_ok ps" "list_all (reply_ok api) ps"
    and fails: "projects_pipelines api k 5 = RequestException e"
    and listed: "Some k \<in> p_id ` set ps"
    and others: "\<forall>p\<in>set ps. p_id p \<noteq> Some k \<longrightarrow> \<not> fetch_fails api p"
  shows "all_pipelines_data api ps [] [] =
           Inr (concat (map (contribution api) (filter (\<lambda>p. p_id p \<noteq> Some k) ps)),
                replicate (length (filter (\<lambda>p. p_id p = Some k) ps))
                  (Error (''Error fetching pipelines for project '' @ str_int k @ '': '' @ e)))
         \<and> 0 < length (filter (\<lambda>p. p_id p = Some k) ps)"
proof -
  have rows: "concat (map (contribution api) ps) =
      concat (map (contribution api) (filter (\<lambda>p. p_id p \<noteq> Some k) ps))"
    by (rule concat_map_filter) (simp add: contribution_def fails)
  have quiet: "complaint api p = []" if "p \<in> set ps" "p_id p \<noteq> Some k" for p
    using others that
    by (auto simp: complaint_def fetch_fails_def split: option.splits response.splits)
  have "concat (map (complaint api) ps) =
      replicate (length (filter (\<lambda>p. p_id p = Some k) ps))
        (Error (''Error fetching pipelines for project '' @ str_int k @ '': '' @ e))"
  proof (rule concat_map_replicate)
    show "complaint api p =
        [Error (''Error fetching pipelines for project '' @ str_int k @ '': '' @ e)]"
      if "p_id p = Some k" for p
      using that by (simp add: complaint_def fails)
  qed (rule quiet)
  moreover from listed have "0 < length (filter (\<lambda>p. p_id p = Some k) ps)"
    by (auto simp: filter_empty_conv)
  ultimately show ?thesis
    using all_pipelines_data_eq [OF ok, of "[]" "[]"] rows by simp
qed

lemma project_A_ok: "project_ok project_A" by (simp add: project_ok_def project_A_def)
lemma project_B_ok: "project_ok project_B" by (simp add: project_ok_def project_B_def)
lemma pipeline_10_ok: "pipeline_ok pipeline_10" by (simp add: pipeline_ok_def pipeline_10_def)

lemma row_of_pipeline_10: "pipeline_row project_A pipeline_10 = Inr row_10"
  by (simp add: pipeline_row_def project_A_def pipeline_10_def row_10_def getitem_def
      get_default_def user_name_def)

lemma failing_group_contribution:
  "contribution failing_group project_A = [row_10]" "contribution failing_group project_B = []"
  by (simp_all add: contribution_def failing_group_def project_A_def project_B_def
      pipeline_10_def row_10_def pipeline_row_def getitem_def get_default_def user_name_def)

lemma str_int_2: "str_int 2 = ''2''"
  by code_simp

lemma failing_group_complaint:
  "complaint failing_group project_A = []"
  "complaint failing_group project_B =
     [Error ''Error fetching pipelines for project 2: timed out'']"
  by (simp_all add: complaint_def failing_group_def project_A_def project_B_def str_int_2)

lemma quiet_group_contribution:
  "contribution quiet_group project_A = [row_10]" "contribution quiet_group project_B = []"
  by (simp_all add: contribution_def quiet_group_def project_A_def project_B_def
      pipeline_10_def row_10_def pipeline_row_def getitem_def get_default_def user_name_def)

lemma quiet_group_complaint:
  "complaint quiet_group project_A = []" "complaint quiet_group project_B = []"
  by (simp_all add: complaint_def quiet_group_def project_A_def project_B_def)

lemma failing_group_reply_ok:
  "reply_ok failing_group project_A" "reply_ok failing_group project_B"
  by (simp_all add: reply_ok_def failing_group_def project_A_def project_B_def pipeline_10_ok)

lemma quiet_group_reply_ok:
  "reply_ok quiet_group project_A" "reply_ok quiet_group project_B"
  by (simp_all add: reply_ok_def quiet_group_def project_A_def project_B_def pipeline_10_ok)

theorem one_failure_tolerated_witness:
  "all_pipelines_data failing_group [project_A, project_B] [] [] =
     Inr ([row_10], [Error ''Error fetching pipelines for project 2: timed out''])"
proof -
  have "list_all project_ok [project_A, project_B]"
    by (simp add: project_A_ok project_B_ok)
  moreover have "list_all (reply_ok failing_group) [project_A, project_B]"
    by (simp add: failing_group_reply_ok)
  moreover have "projects_pipelines failing_group 2 5 = RequestException ''timed out''"
    by (simp add: failing_group_def)
  moreover have "Some 2 \<in> p_id ` set [project_A, project_B]"
    by (simp add: project_B_def)
  moreover have "\<forall>p\<in>set [project_A, project_B]. p_id p \<noteq> Some 2 \<longrightarrow> \<not> fetch_fails failing_group p"
    by (simp add: project_A_def project_B_def fetch_fails_def failing_group_def)
  ultimately have "all_pipelines_data failing_group [project_A, project_B] [] [] =
      Inr (concat (map (contribution failing_group)
             (filter (\<lambda>p. p_id p \<noteq> Some 2) [project_A, project_B])),
           replicate (length (filter (\<lambda>p. p_id p = Some 2) [project_A, project_B]))
             (Error (''Error fetching pipelines for project '' @ str_int 2 @ '': '' @ ''timed out'')))"
    using one_failure_tolerated [of "[project_A, project_B]" failing_group 2 "''timed out''"]
    by blast
  moreover have "filter (\<lambda>p. p_id p \<noteq> Some 2) [project_A, project_B] = [project_A]"
    by (simp add: project_A_def project_B_def)
  moreover have "filter (\<lambda>p. p_id p = Some 2) [project_A, project_B] = [project_B]"
    by (simp add: project_A_def project_B_def)
  moreover note str_int_2
  ultimately show ?thesis
    by (simp add: failing_group_contribution)
qed

text \<open>
  Claim C1 says that the failing project's id is recorded in the result of the
  aggregation. The result of the loop is the list of rows, and it is the same list when
  project 2's request fails and when project 2 has no pipelines: the id 2 is nowhere in it.
\<close>

theorem failure_leaves_no_trace:
  "all_pipelines_data failing_group [project_A, project_B] [] [] =
     Inr ([row_10], [Error ''Error fetching pipelines for project 2: timed out''])
   \<and> all_pipelines_data quiet_group [project_A, project_B] [] [] = Inr ([row_10], [])
   \<and> Project_ID row_10 = 1"
  using
    all_pipelines_data_eq [of "[project_A, project_B]" failing_group "[]" "[]"]
    all_pipelines_data_eq [of "[project_A, project_B]" quiet_group "[]" "[]"]
  by (simp add: project_A_ok project_B_ok failing_group_reply_ok quiet_group_reply_ok
      failing_group_contribution failing_group_complaint quiet_group_contribution
      quiet_group_complaint row_10_def del: all_pipelines_data.simps)

text \<open>
  Claim C3 as amended: the loop does not remove duplicates. A project that stands twice
  in the list is asked twice and its rows (and its error message) are collected twice;
  the result for \<open>[p1, p1, p2]\<close> is the result for \<open>[p1, p2]\<close> only when \<open>p1\<close>
  adds nothing at all.
\<close>

theorem duplicates_fetched_again:
  assumes "project_ok p1" "reply_ok api p1" "project_ok p2" "reply_ok api p2"
  shows "all_pipelines_data api [p1, p1, p2] [] [] =
           Inr (contribution api p1 @ contribution api p1 @ contribution api p2,
                complaint api p1 @ complaint api p1 @ complaint api p2)
         \<and> all_pipelines_data api [p1, p2] [] [] =
           Inr (contribution api p1 @ contribution api p2,
                complaint api p1 @ complaint api p2)
         \<and> (all_pipelines_data api [p1, p1, p2] [] [] = all_pipelines_data api [p1, p2] [] []
              \<longleftrightarrow> contribution api p1 = [] \<and> complaint api p1 = [])"
proof -
  have three: "all_pipelines_data api [p1, p1, p2] [] [] =
      Inr (contribution api p1 @ contribution api p1 @ contribution api p2,
           complaint api p1 @ complaint api p1 @ complaint api p2)"
    using all_pipelines_data_eq [of "[p1, p1, p2]" api "[]" "[]"] assms
    by (simp del: all_pipelines_data.simps)
  have two: "all_pipelines_data api [p1, p2] [] [] =
      Inr (contribution api p1 @ contribution api p2, complaint api p1 @ complaint api p2)"
    using all_pipelines_data_eq [of "[p1, p2]" api "[]" "[]"] assms
    by (simp del: all_pipelines_data.simps)
  have twice: "xs @ xs @ ys = xs @ ys \<longleftrightarrow> xs = []" for xs ys :: "'a list"
    by auto
  show ?thesis
    unfolding three two by (simp add: twice)
qed

theorem duplicates_fetched_again_witness:
  "all_pipelines_data quiet_group [project_A, project_A, project_B] [] [] =
     Inr ([row_10, row_10], [])
   \<and> all_pipelines_data quiet_group [project_A, project_B] [] [] = Inr ([row_10], [])"
  using duplicates_fetched_again [of project_A quiet_group project_B]
  by (simp add: project_A_ok project_B_ok quiet_group_reply_ok quiet_group_contribution
      quiet_group_complaint del: all_pipelines_data.simps)

text \<open>
  Claim C3 says that \<open>[P1, P1, P2]\<close> and \<open>[P1, P2]\<close> give the same result. With project A
  twice in the list its pipeline 10 is collected twice.
\<close>

theorem deduplication_counterexample:
  "all_pipelines_data quiet_group [project_A, project_A, project_B] [] []
     \<noteq> all_pipelines_data quiet_group [project_A, project_B] [] []"
  using
    all_pipelines_data_eq [of "[project_A, project_A, project_B]" quiet_group "[]" "[]"]
    all_pipelines_data_eq [of "[project_A, project_B]" quiet_group "[]" "[]"]
  by (simp add: project_A_ok project_B_ok quiet_group_reply_ok quiet_group_contribution
      quiet_group_complaint del: all_pipelines_data.simps)


subsection \<open>The group's project list\<close>

lemma get_group_projects_eq:
  "get_group_projects api g ui =
     (case groups_projects api g of
        Json ps \<Rightarrow> Inr (ps, ui)
      | RequestException e \<Rightarrow> Inr ([], ui @ [Error (''Error fetching group projects: '' @ e)]))"
  by (simp add: get_group_projects_def str_getitem_def)

lemma all_pipelines_data_page:
  "all_pipelines_data api ps acc ui = Inr (rows, ui') \<Longrightarrow> \<exists>more. ui' = ui @ more"
proof (induction ps arbitrary: acc ui)
  case Nil
  then show ?case by simp
next
  case (Cons p ps)
  from Cons.prems obtain i pls ui1 acc1 where
    step: "get_project_pipelines api i 5 ui = Inr (pls, ui1)"
    and rest: "all_pipelines_data api ps acc1 ui1 = Inr (rows, ui')"
    by (auto split: sum.splits option.splits prod.splits)
  from step obtain m1 where "ui1 = ui @ m1"
    by (auto simp: get_project_pipelines_eq split: response.splits)
  moreover from Cons.IH [OF rest] obtain m2 where "ui' = ui1 @ m2" ..
  ultimately show ?case by simp
qed

lemma main_after_group:
  assumes "\<not> auto_refresh sb" and "\<not> refresh_now sb"
    and "gitlab_url sb \<noteq> []" and "access_token sb \<noteq> []" and "group_id sb \<noteq> []"
    and "groups_projects api (group_id sb) = Json ps" and "ps \<noteq> []"
  shows "(\<exists>e. main parse now api sb = Inl e)
       \<or> (\<exists>more. main parse now api sb =
             Inr (Success (''Found '' @ str_int (int (length ps)) @ '' projects in the group'') # more))"
proof (cases "all_pipelines_data api ps []
    [Success (''Found '' @ str_int (int (length ps)) @ '' projects in the group'')]")
  case (Inl e)
  then show ?thesis
    using assms by (simp add: main_def get_group_projects_eq)
next
  case (Inr res)
  obtain rows ui' where res: "res = (rows, ui')" by (cases res)
  from all_pipelines_data_page [OF Inr [unfolded res]] obtain more where
    "ui' = [Success (''Found '' @ str_int (int (length ps)) @ '' projects in the group'')] @ more" ..
  then show ?thesis
    using assms Inr res
    by (auto simp: main_def get_group_projects_eq split: sum.splits)
qed

text \<open>
  Claim C4: when the request for the group's project list fails, the run of the script
  ends there: \<open>get_group_projects\<close> shows its error and returns no projects, and \<open>main\<close>
  shows the message of line 152 and returns before the pipeline loop and the tabs. A
  failed pipeline request of one project is another result: \<open>get_project_pipelines\<close>
  leaves a different page, the loop goes on with the projects that remain, and no run
  whose group request succeeded with a project in it ends as the run with the failed
  group request does.
\<close>

theorem group_failure_is_fatal:
  assumes "\<not> auto_refresh sb" and "\<not> refresh_now sb"
    and "gitlab_url sb \<noteq> []" and "access_token sb \<noteq> []" and "group_id sb \<noteq> []"
    and "groups_projects api (group_id sb) = RequestException e"
  shows "main parse now api sb =
           Inr [Error (''Error fetching group projects: '' @ e),
                Error ''No projects found or unable to access the group.'']
       \<and> get_group_projects api (group_id sb) ui =
           Inr ([], ui @ [Error (''Error fetching group projects: '' @ e)])
       \<and> (\<forall>api' i n e'. projects_pipelines api' i n = RequestException e' \<longrightarrow>
             get_project_pipelines api' i n ui =
               Inr ([], ui @ [Error (''Error fetching pipelines for project '' @ str_int i
                                      @ '': '' @ e')])
             \<and> map_sum id snd (get_project_pipelines api' i n ui)
                 \<noteq> map_sum id snd (get_group_projects api (group_id sb) ui))
       \<and> (\<forall>api' p i e' rest acc.
             project_ok p \<and> p_id p = Some i \<and> projects_pipelines api' i 5 = RequestException e'
             \<longrightarrow> all_pipelines_data api' (p # rest) acc ui =
                   all_pipelines_data api' rest acc
                     (ui @ [Error (''Error fetching pipelines for project '' @ str_int i
                                    @ '': '' @ e')]))
       \<and> (\<forall>api' ps. groups_projects api' (group_id sb) = Json ps \<and> ps \<noteq> [] \<longrightarrow>
             main parse now api' sb \<noteq> main parse now api sb)"
proof (intro conjI allI impI)
  show fatal: "main parse now api sb =
      Inr [Error (''Error fetching group projects: '' @ e),
           Error ''No projects found or unable to access the group.'']"
    using assms by (simp add: main_def get_group_projects_eq)
  show "get_group_projects api (group_id sb) ui =
      Inr ([], ui @ [Error (''Error fetching group projects: '' @ e)])"
    using assms(6) by (simp add: get_group_projects_eq)
  show "get_project_pipelines api' i n ui =
      Inr ([], ui @ [Error (''Error fetching pipelines for project '' @ str_int i @ '': '' @ e')])"
    if "projects_pipelines api' i n = RequestException e'" for api' i n e'
    using that by (simp add: get_project_pipelines_eq)
  show "map_sum id snd (get_project_pipelines api' i n ui)
      \<noteq> map_sum id snd (get_group_projects api (group_id sb) ui)"
    if "projects_pipelines api' i n = RequestException e'" for api' i n e'
    using that assms(6) by (simp add: get_project_pipelines_eq get_group_projects_eq)
  show "all_pipelines_data api' (p # rest) acc ui =
      all_pipelines_data api' rest acc
        (ui @ [Error (''Error fetching pipelines for project '' @ str_int i @ '': '' @ e')])"
    if "project_ok p \<and> p_id p = Some i \<and> projects_pipelines api' i 5 = RequestException e'"
    for api' p i e' rest acc
  proof -
    from that have "reply_ok api' p" "contribution api' p = []"
      "complaint api' p =
        [Error (''Error fetching pipelines for project '' @ str_int i @ '': '' @ e')]"
      by (simp_all add: reply_ok_def contribution_def complaint_def)
    with that show ?thesis
      using all_pipelines_data_step [of p api' rest acc ui] by simp
  qed
  show "main parse now api' sb \<noteq> main parse now api sb"
    if "groups_projects api' (group_id sb) = Json ps \<and> ps \<noteq> []" for api' ps
    using main_after_group [OF assms(1-5), of api' ps parse now] that fatal by auto
qed

theorem group_failure_is_fatal_witness:
  "main fromisoformat clock_2024_01_02 unreachable_group filled_sidebar =
     Inr [Error ''Error fetching group projects: 404 Not Found'',
          Error ''No projects found or unable to access the group.'']
   \<and> get_project_pipelines failing_group 2 5 [] =
       Inr ([], [Error ''Error fetching pipelines for project 2: timed out''])
   \<and> all_pipelines_data failing_group [project_B, project_A] [] [] =
       Inr ([row_10], [Error ''Error fetching pipelines for project 2: timed out''])
   \<and> main fromisoformat clock_2024_01_02 failing_group filled_sidebar
       \<noteq> main fromisoformat clock_2024_01_02 unreachable_group filled_sidebar"
proof -
  have side: "\<not> auto_refresh filled_sidebar" "\<not> refresh_now filled_sidebar"
    "gitlab_url filled_sidebar \<noteq> []" "access_token filled_sidebar \<noteq> []"
    "group_id filled_sidebar \<noteq> []"
    by (simp_all add: filled_sidebar_def)
  have down: "groups_projects unreachable_group (group_id filled_sidebar) =
      RequestException ''404 Not Found''"
    by (simp add: unreachable_group_def)
  note all = group_failure_is_fatal [OF side down, of fromisoformat clock_2024_01_02 "[]"]
  have b: "projects_pipelines failing_group 2 5 = RequestException ''timed out''"
    by (simp add: failing_group_def)
  have listed: "groups_projects failing_group (group_id filled_sidebar) = Json [project_A, project_B]"
    by (simp add: failing_group_def)
  have "all_pipelines_data failing_group [project_B, project_A] [] [] =
      all_pipelines_data failing_group [project_A] []
        ([] @ [Error (''Error fetching pipelines for project '' @ str_int 2 @ '': '' @ ''timed out'')])"
    using all b project_B_ok by (simp add: project_B_def del: all_pipelines_data.simps)
  also have "\<dots> = Inr ([row_10], [Error ''Error fetching pipelines for project 2: timed out''])"
    using all_pipelines_data_eq [of "[project_A]" failing_group "[]"
        "[Error ''Error fetching pipelines for project 2: timed out'']"]
    by (simp add: project_A_ok failing_group_reply_ok failing_group_contribution
        failing_group_complaint str_int_2 del: all_pipelines_data.simps)
  finally have loop: "all_pipelines_data failing_group [project_B, project_A] [] [] =
      Inr ([row_10], [Error ''Error fetching pipelines for project 2: timed out''])" .
  from all b have "get_project_pipelines failing_group 2 5 [] =
      Inr ([], [Error ''Error fetching pipelines for project 2: timed out''])"
    by (simp add: str_int_2)
  moreover from all listed have "main fromisoformat clock_2024_01_02 failing_group filled_sidebar
      \<noteq> main fromisoformat clock_2024_01_02 unreachable_group filled_sidebar"
    by blast
  moreover from all have "main fromisoformat clock_2024_01_02 unreachable_group filled_sidebar =
     Inr [Error ''Error fetching group projects: 404 Not Found'',
          Error ''No projects found or unable to access the group.'']"
    by simp
  ultimately show ?thesis using loop by simp
qed

subsection \<open>What the raising helpers do to the tabs\<close>

text \<open>
  Both the overview's table and the expanders of the pending tab call
  \<open>get_status_color\<close>, so each of them ends in IndexError as soon as it has a row to show.
\<close>

lemma overview_raises: "df \<noteq> [] \<Longrightarrow> overview parse now df = Inl IndexError"
  by (cases df) (simp_all add: overview_def get_status_color_def str_getitem_def)

lemma pending_tab_raises: "pending_df rows \<noteq> [] \<Longrightarrow> pending_tab parse api rows = Inl IndexError"
  by (cases "pending_df rows") (simp_all add: pending_tab_def get_status_color_def str_getitem_def)

subsection \<open>The recent successes\<close>

lemma goes_before_total: "goes_before a b \<or> goes_before b a"
  by (auto simp: goes_before_def split: option.splits)

lemma goes_before_trans: "goes_before a b \<Longrightarrow> goes_before b c \<Longrightarrow> goes_before a c"
  by (auto simp: goes_before_def split: option.splits)

lemma goes_before_strings: "goes_before (Some x) (Some y) \<longleftrightarrow> y \<le> x"
  by (simp add: goes_before_def)

lemma mset_insert_row: "mset (insert_row r xs) = add_mset r (mset xs)"
  by (induction xs) auto

lemma mset_sort_values_Updated: "mset (sort_values_Updated df) = mset df"
  by (induction df) (simp_all add: sort_values_Updated_def mset_insert_row)

lemma set_insert_row: "set (insert_row r xs) = insert r (set xs)"
  by (induction xs) auto

lemma sorted_insert_row:
  assumes "sorted_wrt (\<lambda>a b. goes_before (Updated a) (Updated b)) xs"
  shows "sorted_wrt (\<lambda>a b. goes_before (Updated a) (Updated b)) (insert_row r xs)"
  using assms
proof (induction xs)
  case Nil
  then show ?case by simp
next
  case (Cons x xs)
  show ?case
  proof (cases "goes_before (Updated r) (Updated x)")
    case True
    with Cons.prems show ?thesis
      by (auto intro: goes_before_trans)
  next
    case False
    then have "goes_before (Updated x) (Updated r)"
      using goes_before_total by blast
    with False Cons show ?thesis
      by (auto simp: set_insert_row)
  qed
qed

lemma recent_successes_example: "recent_successes [row_11, row_10] = [row_10]"
  by (simp add: recent_successes_def success_df_def sort_values_Updated_def row_10_def
      row_11_def)

lemma sorted_sort_values_Updated:
  "sorted_wrt (\<lambda>a b. goes_before (Updated a) (Updated b)) (sort_values_Updated df)"
  by (induction df) (simp_all add: sort_values_Updated_def sorted_insert_row)

lemma goes_before_iff:
  "goes_before a b \<longleftrightarrow> b = None \<or> (\<exists>x y. a = Some x \<and> b = Some y \<and> y \<le> x)"
  by (auto simp: goes_before_def split: option.splits)

lemma later_stamp: "''2024-01-01T23:00:00Z'' \<le> ''2024-01-01T23:45:00Z''"
  by code_simp

lemma earlier_stamp: "\<not> ''2024-01-01T23:45:00Z'' \<le> ''2024-01-01T23:00:00Z''"
  by code_simp

text \<open>
  Of the three rows the running one is dropped and the later success comes first.
\<close>

lemma recent_successes_reorders:
  "recent_successes [row_10, row_11, row_12] = [row_12, row_10]"
  by (simp add: recent_successes_def success_df_def sort_values_Updated_def row_10_def
      row_11_def row_12_def goes_before_def later_stamp earlier_stamp)

text \<open>
  Claim C7: the recent-successes view keeps exactly the rows whose status is
  \<^verbatim>\<open>success\<close>, arranges them by their \<^verbatim>\<open>Updated\<close> value in descending order and shows
  the first ten of that arrangement. Written out: the view is the first ten entries of
  some arrangement of exactly the successful rows in which, of any two rows, the later one
  has no \<^verbatim>\<open>Updated\<close> value or both have one and the later row's is not greater; so the
  view has ten rows, or all the successful ones when there are fewer. (The values are
  the platform's strings and are compared as strings.)
\<close>

theorem recent_successes_view:
  "\<exists>arranged. mset arranged = mset (filter (\<lambda>p. Status p = Some ''success'') rows)
      \<and> sorted_wrt (\<lambda>a b. Updated b = None
                          \<or> (\<exists>x y. Updated a = Some x \<and> Updated b = Some y \<and> y \<le> x)) arranged
      \<and> recent_successes rows = take 10 arranged
      \<and> length (recent_successes rows) =
          min 10 (length (filter (\<lambda>p. Status p = Some ''success'') rows))"
proof (intro exI conjI)
  show "mset (sort_values_Updated (success_df rows)) =
      mset (filter (\<lambda>p. Status p = Some ''success'') rows)"
    by (simp add: mset_sort_values_Updated success_df_def)
  show "sorted_wrt (\<lambda>a b. Updated b = None
        \<or> (\<exists>x y. Updated a = Some x \<and> Updated b = Some y \<and> y \<le> x))
      (sort_values_Updated (success_df rows))"
    using sorted_sort_values_Updated [of "success_df rows"] by (simp add: goes_before_iff)
  show "recent_successes rows = take 10 (sort_values_Updated (success_df rows))"
    by (simp add: recent_successes_def)
  have "length (sort_values_Updated (success_df rows)) = length (success_df rows)"
    using mset_sort_values_Updated [of "success_df rows"] by (metis size_mset)
  then show "length (recent_successes rows) =
      min 10 (length (filter (\<lambda>p. Status p = Some ''success'') rows))"
    by (simp add: recent_successes_def success_df_def)
qed

subsection \<open>Elapsed time\<close>

text \<open>
  The text for a pipeline updated \<open>d\<close> whole seconds ago: the comparisons of lines 75
  and 78 are strict, so 3600 seconds still read as minutes and 60 seconds as
  \<^verbatim>\<open>Just now\<close>, while a whole day (line 73) reads as a day.
\<close>

lemma mk_timedelta_elapsed:
  assumes "0 \<le> d" and "0 \<le> us" and "us < 1000000"
  shows "mk_timedelta 0 d us = \<lparr>days = d div 86400, seconds = d mod 86400, microseconds = us\<rparr>"
proof -
  define total where "total = d * 1000000 + us"
  have q: "total div 1000000 = d" and r: "total mod 1000000 = us"
    using assms by (simp_all add: total_def)
  have "total div 86400000000 = (total div 1000000) div 86400"
    using zdiv_zmult2_eq [of 86400 total 1000000] by simp
  then have a: "total div 86400000000 = d div 86400"
    by (simp add: q)
  have "total mod 86400000000 = 1000000 * (total div 1000000 mod 86400) + total mod 1000000"
    using zmod_zmult2_eq [of 86400 total 1000000] by simp
  then have "total mod 86400000000 = (d mod 86400) * 1000000 + us"
    by (simp add: q r)
  then have b: "total mod 86400000000 div 1000000 = d mod 86400"
    using assms by simp
  show ?thesis
    using a b r by (simp add: mk_timedelta_def total_def)
qed

lemma time_ago_of_elapsed:
  assumes "0 \<le> d" and "0 \<le> us" and "us < 1000000"
  shows "time_ago_of (mk_timedelta 0 d us) =
     (if 86400 \<le> d then str_int (d div 86400) @ '' days ago''
      else if 3600 < d then str_int (d div 3600) @ '' hours ago''
      else if 60 < d then str_int (d div 60) @ '' minutes ago''
      else ''Just now'')"
proof -
  have "86400 \<le> d \<longleftrightarrow> 0 < d div 86400"
    using assms(1) by (simp add: pos_imp_zdiv_pos_iff)
  moreover have "d mod 86400 = d" if "d < 86400"
    using assms(1) that by simp
  ultimately show ?thesis
    by (simp add: mk_timedelta_elapsed [OF assms] time_ago_of_def)
qed

lemma get_time_ago_parsed:
  assumes "s \<noteq> []" and "parse (replace_Z s) = Some dt"
    and "datetime_sub (now (tzinfo dt)) dt = Inr delta"
  shows "get_time_ago parse now (Some s) = time_ago_of delta"
  using assms by (simp add: get_time_ago_def get_time_ago_try_def)

text \<open>
  What \<open>get_time_ago\<close> returns for a timestamp that lies \<open>d\<close> whole seconds (and \<open>us\<close>
  microseconds) before the clock's reading, for every \<open>d\<close>.
\<close>

lemma get_time_ago_elapsed:
  assumes "s \<noteq> []" and "parse (replace_Z s) = Some dt"
    and "datetime_sub (now (tzinfo dt)) dt = Inr (mk_timedelta 0 d us)"
    and "0 \<le> d" and "0 \<le> us" and "us < 1000000"
  shows "get_time_ago parse now (Some s) =
     (if 86400 \<le> d then str_int (d div 86400) @ '' days ago''
      else if 3600 < d then str_int (d div 3600) @ '' hours ago''
      else if 60 < d then str_int (d div 60) @ '' minutes ago''
      else ''Just now'')"
proof -
  have "get_time_ago parse now (Some s) = time_ago_of (mk_timedelta 0 d us)"
    using assms(1-3) by (rule get_time_ago_parsed)
  then show ?thesis
    by (simp add: time_ago_of_elapsed [OF assms(4-6)])
qed

lemma read_23_59: "fromisoformat (replace_Z ''2024-01-01T23:59:00Z'') = Some dt_23_59"
  unfolding dt_23_59_def by code_simp

lemma read_23_00: "fromisoformat (replace_Z ''2024-01-01T23:00:00Z'') = Some dt_23_00"
  unfolding dt_23_00_def by code_simp

lemma since_23_59:
  "datetime_sub (clock_2024_01_02 (tzinfo dt_23_59)) dt_23_59 = Inr (mk_timedelta 0 60 0)"
  unfolding dt_23_59_def by code_simp

lemma since_23_00:
  "datetime_sub (clock_2024_01_02 (tzinfo dt_23_00)) dt_23_00 = Inr (mk_timedelta 0 3600 0)"
  unfolding dt_23_00_def by code_simp

lemma str_int_60: "str_int 60 = ''60''"
  by code_simp

text \<open>
  Claim C2 says that a timestamp exactly 3600 seconds old reads \<^verbatim>\<open>1 hours ago\<close>, not
  \<^verbatim>\<open>60 minutes ago\<close>, and that one exactly 60 seconds old reads \<^verbatim>\<open>1 minutes ago\<close>. With
  the clock at 2024-01-02T00:00:00Z the function of the source answers
  \<^verbatim>\<open>60 minutes ago\<close> for 2024-01-01T23:00:00Z and \<^verbatim>\<open>Just now\<close> for
  2024-01-01T23:59:00Z: the comparisons of lines 75 and 78 are strict where the claim's
  buckets, like the day test of line 73, include their lower bound.
\<close>

theorem one_hour_reads_60_minutes:
  "get_time_ago fromisoformat clock_2024_01_02 (Some ''2024-01-01T23:00:00Z'') = ''60 minutes ago''
   \<and> get_time_ago fromisoformat clock_2024_01_02 (Some ''2024-01-01T23:59:00Z'') = ''Just now''"
proof -
  have "get_time_ago fromisoformat clock_2024_01_02 (Some ''2024-01-01T23:00:00Z'') =
      time_ago_of (mk_timedelta 0 3600 0)"
    using read_23_00 since_23_00 by (intro get_time_ago_parsed [where dt = dt_23_00]) simp_all
  moreover have "get_time_ago fromisoformat clock_2024_01_02 (Some ''2024-01-01T23:59:00Z'') =
      time_ago_of (mk_timedelta 0 60 0)"
    using read_23_59 since_23_59 by (intro get_time_ago_parsed [where dt = dt_23_59]) simp_all
  ultimately show ?thesis
    by (simp add: time_ago_of_elapsed str_int_60)
qed

end
